theory Spec2Isabelle
  imports Complex_Main "HOL-Library.Word"
begin

section \<open>Machine values\<close>

text \<open>
  \<open>unsigned int\<close> is a 32-bit word: \<open>+\<close>, \<open>-\<close> and \<open>*\<close> wrap around.
  A finite \<open>float\<close> is modelled by the real number it denotes; the arithmetic on
  floats is the arithmetic of the reals (rounding is not modelled). Where a float
  operation of the source can leave the finite values (a division by zero), the
  model says so with \<open>xfloat\<close>.
\<close>

type_synonym uint = "32 word"

datatype fault = NullDereference | OutOfBoundsRead | OutOfBoundsWrite | UndefinedConversion

text \<open>Sequencing of computations that may fault: the first fault wins.\<close>

definition bind_fault :: "fault + 'a \<Rightarrow> ('a \<Rightarrow> fault + 'b) \<Rightarrow> fault + 'b" where
  "bind_fault m f = (case m of Inl e \<Rightarrow> Inl e | Inr v \<Rightarrow> f v)"

text \<open>
  The implicit conversion \<open>unsigned int x1 = x\<close> of a float: the fractional part is
  discarded (rounding towards zero); the behaviour is undefined when the integral
  part is not a value of \<open>unsigned int\<close>.
\<close>

definition trunc :: "real \<Rightarrow> int" where
  "trunc r = (if r < 0 then - \<lfloor>- r\<rfloor> else \<lfloor>r\<rfloor>)"

definition float_to_uint :: "real \<Rightarrow> fault + uint" where
  "float_to_uint r =
     (if 0 \<le> trunc r \<and> trunc r < 2 ^ 32 then Inr (word_of_int (trunc r))
      else Inl UndefinedConversion)"

text \<open>\<open>modf(x, &tmp)\<close>: the fractional part of \<open>x\<close>, with the sign of \<open>x\<close>.\<close>

definition modf :: "real \<Rightarrow> real" where
  "modf r = r - of_int (trunc r)"

text \<open>\<open>data[i]\<close> on a buffer of \<open>length data\<close> floats.\<close>

definition sample :: "real list \<Rightarrow> uint \<Rightarrow> fault + real" where
  "sample data i =
     (if unat i < length data then Inr (data ! unat i) else Inl OutOfBoundsRead)"

text \<open>\<open>data[i] = v\<close> on the same buffer.\<close>

definition store :: "real list \<Rightarrow> uint \<Rightarrow> real \<Rightarrow> fault + real list" where
  "store data i v =
     (if unat i < length data then Inr (data[unat i := v]) else Inl OutOfBoundsWrite)"

text \<open>
  The result of a float division: finite, or one of the values that a division by
  zero produces.
\<close>

datatype xfloat = Finite real | PosInf | NegInf | NaN

definition fdiv :: "real \<Rightarrow> real \<Rightarrow> xfloat" where
  "fdiv a b =
     (if b \<noteq> 0 then Finite (a / b)
      else if a > 0 then PosInf
      else if a < 0 then NegInf
      else NaN)"

text \<open>The product of a finite float and such a result.\<close>

fun xmul :: "real \<Rightarrow> xfloat \<Rightarrow> xfloat" where
  "xmul a (Finite b) = Finite (a * b)"
| "xmul a PosInf = (if a > 0 then PosInf else if a < 0 then NegInf else NaN)"
| "xmul a NegInf = (if a > 0 then NegInf else if a < 0 then PosInf else NaN)"
| "xmul a NaN = NaN"

text \<open>The comparisons \<open>x < r\<close> and \<open>x > r\<close>; every comparison with NaN is false.\<close>

fun xless :: "xfloat \<Rightarrow> real \<Rightarrow> bool" where
  "xless (Finite a) r = (a < r)"
| "xless NegInf r = True"
| "xless PosInf r = False"
| "xless NaN r = False"

fun xgreater :: "xfloat \<Rightarrow> real \<Rightarrow> bool" where
  "xgreater (Finite a) r = (a > r)"
| "xgreater PosInf r = True"
| "xgreater NegInf r = False"
| "xgreater NaN r = False"

text \<open>
  Loops that may fault, over the values of their counter. \<open>counters n\<close> are the values
  of \<open>i\<close> in \<open>for (unsigned int i = 0; i < n; i++)\<close>, \<open>counters_incl n\<close> those of
  \<open>for (unsigned int i = 0; i <= n; i++)\<close> (which faults in its first iteration
  wherever it is used with the largest \<open>n\<close>, see \<open>heightfieldSamples\<close>).
\<close>

fun fold_fault :: "('a \<Rightarrow> 's \<Rightarrow> fault + 's) \<Rightarrow> 'a list \<Rightarrow> 's \<Rightarrow> fault + 's" where
  "fold_fault f [] s = Inr s"
| "fold_fault f (a # as) s = bind_fault (f a s) (fold_fault f as)"

definition counters :: "uint \<Rightarrow> uint list" where
  "counters n = map word_of_nat [0..<unat n]"

definition counters_incl :: "uint \<Rightarrow> uint list" where
  "counters_incl n = map word_of_nat [0..<Suc (unat n)]"

section \<open>Bilinear height interpolation\<close>

definition calculateHeight :: "real list \<Rightarrow> uint \<Rightarrow> uint \<Rightarrow> real \<Rightarrow> real \<Rightarrow> fault + real" where
  "calculateHeight data width height x y =
     bind_fault (float_to_uint x) (\<lambda>x1.
     bind_fault (float_to_uint y) (\<lambda>y1.
       let x2 = x1 + 1;
           y2 = y1 + 1;
           xFactor = modf x;
           yFactor = modf y;
           xFactorI = 1 - xFactor;
           yFactorI = 1 - yFactor
       in
         if x2 \<ge> width \<and> y2 \<ge> height then
           sample data (x1 + y1 * width)
         else if x2 \<ge> width then
           bind_fault (sample data (x1 + y1 * width)) (\<lambda>d11.
           bind_fault (sample data (x1 + y2 * width)) (\<lambda>d12.
             Inr (d11 * yFactorI + d12 * yFactor)))
         else if y2 \<ge> height then
           bind_fault (sample data (x1 + y1 * width)) (\<lambda>d11.
           bind_fault (sample data (x2 + y1 * width)) (\<lambda>d21.
             Inr (d11 * xFactorI + d21 * xFactor)))
         else
           bind_fault (sample data (x1 + y1 * width)) (\<lambda>d11.
           bind_fault (sample data (x1 + y2 * width)) (\<lambda>d12.
           bind_fault (sample data (x2 + y2 * width)) (\<lambda>d22.
           bind_fault (sample data (x2 + y1 * width)) (\<lambda>d21.
             Inr (d11 * xFactorI * yFactorI + d12 * xFactorI * yFactor +
                  d22 * xFactor * yFactor + d21 * xFactor * yFactorI)))))))"

text \<open>The same call on arguments that may not be finite: converting them is undefined.\<close>

definition calculateHeightX :: "real list \<Rightarrow> uint \<Rightarrow> uint \<Rightarrow> xfloat \<Rightarrow> xfloat \<Rightarrow> fault + real" where
  "calculateHeightX data width height x y =
     (case (x, y) of
        (Finite rx, Finite ry) \<Rightarrow> calculateHeight data width height rx ry
      | _ \<Rightarrow> Inl UndefinedConversion)"

section \<open>Collaborators\<close>

text \<open>
  The scene graph, the image decoder, the properties reader, the physics controller
  and the Bullet library are not part of this file of the repository. Their data is
  modelled as far as \<open>PhysicsRigidBody.cpp\<close> reads it; their functions are the
  fields of an environment \<open>Env\<close>.
\<close>

datatype Vector3 = Vector3 (vx: real) (vy: real) (vz: real)

text \<open>
  Modelled from the spec: \<open>Vector3::lengthSquared\<close> is not under src/; the spec calls
  it the squared magnitude of the vector.
\<close>

definition lengthSquared :: "Vector3 \<Rightarrow> real" where
  "lengthSquared v = vx v * vx v + vy v * vy v + vz v * vz v"

datatype PrimitiveType = TRIANGLES | TRIANGLE_STRIP | LINES | LINE_STRIP | POINTS

record 'm Node =
  worldMatrix :: 'm
  boundingBox_min :: Vector3
  boundingBox_max :: Vector3
  boundingSphere_radius :: real
  primitiveType :: PrimitiveType

text \<open>
  Modelled from the spec: the pixel formats of \<open>Image\<close> are not under src/; the spec
  supports RGB and RGBA only, \<open>OtherFormat\<close> stands for every other format.
\<close>

datatype Format = RGB | RGBA | OtherFormat

record Image =
  img_width :: uint
  img_height :: uint
  img_format :: Format
  img_data :: "8 word list"

record Properties =
  prop_namespace :: string
  prop_list :: "(string \<times> string) list"

record 'm Env =
  MATH_EPSILON :: real
  Matrix_new :: 'm
  Matrix_invert :: "'m \<Rightarrow> 'm \<Rightarrow> 'm"
  Matrix_transform :: "'m \<Rightarrow> Vector3 \<Rightarrow> Vector3"
  Matrix_getScale :: "'m \<Rightarrow> Vector3"
  Properties_getFloat :: "string \<Rightarrow> real"
  Properties_getBool :: "string \<Rightarrow> bool"
  Properties_getVector3 :: "string \<Rightarrow> Vector3"
  Image_create :: "string \<Rightarrow> Image option"

text \<open>
  Modelled from the spec: the collision shapes that the physics controller creates
  (box, sphere, mesh, capsule, heightfield), each with the arguments it is created
  from, and the Bullet shape type of each.
\<close>

datatype Shape =
    Box Vector3 Vector3 Vector3
  | Sphere real Vector3
  | Mesh Vector3
  | Capsule real real
  | Heightfield uint uint "real list" real real

datatype ProxyType =
    BOX_SHAPE_PROXYTYPE
  | SPHERE_SHAPE_PROXYTYPE
  | CAPSULE_SHAPE_PROXYTYPE
  | TRIANGLE_MESH_SHAPE_PROXYTYPE
  | TERRAIN_SHAPE_PROXYTYPE

fun getShapeType :: "Shape \<Rightarrow> ProxyType" where
  "getShapeType (Box _ _ _) = BOX_SHAPE_PROXYTYPE"
| "getShapeType (Sphere _ _) = SPHERE_SHAPE_PROXYTYPE"
| "getShapeType (Mesh _) = TRIANGLE_MESH_SHAPE_PROXYTYPE"
| "getShapeType (Capsule _ _) = CAPSULE_SHAPE_PROXYTYPE"
| "getShapeType (Heightfield _ _ _ _ _) = TERRAIN_SHAPE_PROXYTYPE"

text \<open>
  The Bullet rigid body: the parameters it is constructed with and the calls it has
  received since, oldest first. Its simulation state (velocity, activation) changes
  only through these calls.
\<close>

datatype BulletCall =
    Activate
  | ApplyForce Vector3 Vector3
  | ApplyCentralForce Vector3
  | ApplyImpulse Vector3 Vector3
  | ApplyCentralImpulse Vector3
  | ApplyTorque Vector3
  | ApplyTorqueImpulse Vector3
  | SetKinematic bool
  | SetGravity Vector3
  | SetAnisotropicFriction Vector3

record btRigidBody =
  bt_mass :: real
  bt_friction :: real
  bt_restitution :: real
  bt_linearDamping :: real
  bt_angularDamping :: real
  bt_localInertiaFromShape :: bool
  bt_calls :: "BulletCall list"

definition call :: "BulletCall \<Rightarrow> btRigidBody \<Rightarrow> btRigidBody" where
  "call c b = b\<lparr>bt_calls := bt_calls b @ [c]\<rparr>"

datatype warning =
    FailedToLoadFromProperties
  | UnsupportedType string
  | MeshPrimitiveTypeNotSupported
  | HeightfieldRequiresImagePath
  | PixelFormatNotSupported
  | CapsuleRequiresRadiusAndHeight
  | HeightOfNonHeightfield
  | HeightOutsideRange

section \<open>The rigid body\<close>

datatype ShapeType =
  SHAPE_BOX | SHAPE_SPHERE | SHAPE_NONE | SHAPE_MESH | SHAPE_HEIGHTFIELD | SHAPE_CAPSULE

text \<open>
  The fields of \<open>PhysicsRigidBody\<close> that the functions below read or write. A null
  \<open>_shape\<close>, \<open>_heightfieldData\<close> or \<open>_inverse\<close> is \<open>None\<close>. \<open>_body\<close> is set by every
  constructor. \<open>_width\<close> and \<open>_height\<close> are set by the heightfield constructor only,
  and read by \<open>getHeight\<close> on heightfield bodies only; elsewhere they are 0 here.
\<close>

record 'm PhysicsRigidBody =
  m_shape :: "Shape option"
  m_body :: btRigidBody
  m_node :: "'m Node"
  m_heightfieldData :: "real list option"
  m_width :: uint
  m_height :: uint
  m_inverse :: "'m option"
  m_inverseIsDirty :: bool

subsection \<open>Construction\<close>

text \<open>
  \<open>createRigidBodyInternal\<close>: the local inertia is computed from the shape unless
  the mass is zero or the shape is a triangle mesh. The motion state and its centre
  of mass offset are not modelled, nor are the registration of the body with the
  physics controller and with the node's transform listeners.
\<close>

definition createRigidBodyInternal ::
  "Shape option \<Rightarrow> real \<Rightarrow> real \<Rightarrow> real \<Rightarrow> real \<Rightarrow> real \<Rightarrow> fault + btRigidBody" where
  "createRigidBodyInternal shape mass friction restitution linearDamping angularDamping =
     bind_fault
       (if mass \<noteq> 0 then
          (case shape of
             None \<Rightarrow> Inl NullDereference
           | Some s \<Rightarrow> Inr (getShapeType s \<noteq> TRIANGLE_MESH_SHAPE_PROXYTYPE))
        else Inr False)
       (\<lambda>localInertia.
          Inr \<lparr>bt_mass = mass, bt_friction = friction, bt_restitution = restitution,
               bt_linearDamping = linearDamping, bt_angularDamping = angularDamping,
               bt_localInertiaFromShape = localInertia, bt_calls = []\<rparr>)"

text \<open>The constructor from a shape type (box, sphere or mesh).\<close>

definition new_PhysicsRigidBody ::
  "'m Env \<Rightarrow> 'm Node \<Rightarrow> ShapeType \<Rightarrow> real \<Rightarrow> real \<Rightarrow> real \<Rightarrow> real \<Rightarrow> real \<Rightarrow>
     fault + 'm PhysicsRigidBody" where
  "new_PhysicsRigidBody E node type mass friction restitution linearDamping angularDamping =
     (let scale = Matrix_getScale E (worldMatrix node);
          shape =
            (case type of
               SHAPE_BOX \<Rightarrow> Some (Box (boundingBox_min node) (boundingBox_max node) scale)
             | SHAPE_SPHERE \<Rightarrow> Some (Sphere (boundingSphere_radius node) scale)
             | SHAPE_MESH \<Rightarrow> Some (Mesh scale)
             | _ \<Rightarrow> None)
      in bind_fault
           (createRigidBodyInternal shape mass friction restitution linearDamping angularDamping)
           (\<lambda>body.
              Inr \<lparr>m_shape = shape, m_body = body, m_node = node, m_heightfieldData = None,
                   m_width = 0, m_height = 0, m_inverse = None, m_inverseIsDirty = True\<rparr>))"

text \<open>The constructor of a capsule.\<close>

definition new_PhysicsRigidBody_capsule ::
  "'m Env \<Rightarrow> 'm Node \<Rightarrow> real \<Rightarrow> real \<Rightarrow> real \<Rightarrow> real \<Rightarrow> real \<Rightarrow> real \<Rightarrow> real \<Rightarrow>
     fault + 'm PhysicsRigidBody" where
  "new_PhysicsRigidBody_capsule E node radius height mass friction restitution
       linearDamping angularDamping =
     (let shape = Some (Capsule radius height)
      in bind_fault
           (createRigidBodyInternal shape mass friction restitution linearDamping angularDamping)
           (\<lambda>body.
              Inr \<lparr>m_shape = shape, m_body = body, m_node = node, m_heightfieldData = None,
                   m_width = 0, m_height = 0, m_inverse = None, m_inverseIsDirty = True\<rparr>))"

text \<open>
  The constructor of a heightfield from an image. First the height of each pixel:
  \<open>data[x + y * image->getWidth()]\<close> is written from the three bytes that start at
  \<open>(x + y * image->getHeight()) * pixelSize\<close>.
\<close>

definition pixelSize :: "Format \<Rightarrow> uint" where
  "pixelSize f = (case f of RGB \<Rightarrow> 3 | RGBA \<Rightarrow> 4 | OtherFormat \<Rightarrow> 0)"

definition getData :: "Image \<Rightarrow> uint \<Rightarrow> fault + real" where
  "getData img i =
     (if unat i < length (img_data img) then Inr (real (unat (img_data img ! unat i)))
      else Inl OutOfBoundsRead)"

definition pixelHeight :: "Image \<Rightarrow> real \<Rightarrow> real \<Rightarrow> uint \<Rightarrow> uint \<Rightarrow> fault + real" where
  "pixelHeight img minHeight maxHeight x y =
     bind_fault (getData img ((x + y * img_height img) * pixelSize (img_format img) + 0)) (\<lambda>r.
     bind_fault (getData img ((x + y * img_height img) * pixelSize (img_format img) + 1)) (\<lambda>g.
     bind_fault (getData img ((x + y * img_height img) * pixelSize (img_format img) + 2)) (\<lambda>b.
       Inr (((r + g + b) / 768) * (maxHeight - minHeight) + minHeight))))"

definition pixelHeights :: "Image \<Rightarrow> real \<Rightarrow> real \<Rightarrow> fault + real list" where
  "pixelHeights img minHeight maxHeight =
     fold_fault
       (\<lambda>x. fold_fault
          (\<lambda>y data.
             bind_fault (pixelHeight img minHeight maxHeight x y)
               (store data (x + y * img_width img)))
          (counters (img_height img)))
       (counters (img_width img))
       (replicate (unat (img_width img * img_height img)) 0)"

text \<open>
  Then one height per world unit. The loop variables \<open>x\<close> and \<open>z\<close> of the source
  are unsigned integers (declared with \<open>col\<close> and \<open>row\<close>) that count with them.
  Where \<open>sizeWidth\<close> or \<open>sizeHeight\<close> is 0 the img factor is not finite.
\<close>

definition heightfieldSamples ::
  "real list \<Rightarrow> Image \<Rightarrow> uint \<Rightarrow> uint \<Rightarrow> fault + real list" where
  "heightfieldSamples data img sizeWidth sizeHeight =
     (let width = sizeWidth + 1;
          height = sizeHeight + 1;
          widthImageFactor = fdiv (real (unat (img_width img - 1))) (real (unat sizeWidth));
          heightImageFactor = fdiv (real (unat (img_height img - 1))) (real (unat sizeHeight))
      in fold_fault
           (\<lambda>row. fold_fault
              (\<lambda>col heightfieldData.
                 let x = col; z = row; heightIndex = row * width + col in
                 bind_fault
                   (calculateHeightX data (img_width img) (img_height img)
                      (xmul (real (unat x)) widthImageFactor)
                      (xmul (real (unat (sizeHeight - z))) heightImageFactor))
                   (store heightfieldData heightIndex))
              (counters_incl sizeWidth))
           (counters_incl sizeHeight)
           (replicate (unat (width * height)) 0))"

definition new_PhysicsRigidBody_heightfield ::
  "'m Env \<Rightarrow> 'm Node \<Rightarrow> Image \<Rightarrow> real \<Rightarrow> real \<Rightarrow> real \<Rightarrow> real \<Rightarrow> real \<Rightarrow>
     fault + 'm PhysicsRigidBody" where
  "new_PhysicsRigidBody_heightfield E node img mass friction restitution
       linearDamping angularDamping =
     (let width = vx (boundingBox_max node) - vx (boundingBox_min node);
          minHeight = vy (boundingBox_min node);
          maxHeight = vy (boundingBox_max node);
          len = vz (boundingBox_max node) - vz (boundingBox_min node)
      in bind_fault (pixelHeights img minHeight maxHeight) (\<lambda>data.
         bind_fault (float_to_uint width) (\<lambda>sizeWidth.
         bind_fault (float_to_uint len) (\<lambda>sizeHeight.
         bind_fault (heightfieldSamples data img sizeWidth sizeHeight) (\<lambda>heightfieldData.
           let shape = Some (Heightfield (sizeWidth + 1) (sizeHeight + 1) heightfieldData
                               minHeight maxHeight)
           in bind_fault
                (createRigidBodyInternal shape mass friction restitution
                   linearDamping angularDamping)
                (\<lambda>body.
                   Inr \<lparr>m_shape = shape, m_body = body, m_node = node,
                        m_heightfieldData = Some heightfieldData,
                        m_width = sizeWidth + 1, m_height = sizeHeight + 1,
                        m_inverse = None, m_inverseIsDirty = True\<rparr>))))))"

subsection \<open>Forces\<close>

definition applyForce ::
  "'m Env \<Rightarrow> 'm PhysicsRigidBody \<Rightarrow> Vector3 \<Rightarrow> Vector3 option \<Rightarrow> 'm PhysicsRigidBody" where
  "applyForce E this force relativePosition =
     (if lengthSquared force > MATH_EPSILON E then
        this\<lparr>m_body :=
          (case relativePosition of
             Some p \<Rightarrow> call (ApplyForce force p) (call Activate (m_body this))
           | None \<Rightarrow> call (ApplyCentralForce force) (call Activate (m_body this)))\<rparr>
      else this)"

definition applyImpulse ::
  "'m Env \<Rightarrow> 'm PhysicsRigidBody \<Rightarrow> Vector3 \<Rightarrow> Vector3 option \<Rightarrow> 'm PhysicsRigidBody" where
  "applyImpulse E this impulse relativePosition =
     (if lengthSquared impulse > MATH_EPSILON E then
        this\<lparr>m_body :=
          (case relativePosition of
             Some p \<Rightarrow> call (ApplyImpulse impulse p) (call Activate (m_body this))
           | None \<Rightarrow> call (ApplyCentralImpulse impulse) (call Activate (m_body this)))\<rparr>
      else this)"

definition applyTorque :: "'m Env \<Rightarrow> 'm PhysicsRigidBody \<Rightarrow> Vector3 \<Rightarrow> 'm PhysicsRigidBody" where
  "applyTorque E this torque =
     (if lengthSquared torque > MATH_EPSILON E then
        this\<lparr>m_body := call (ApplyTorque torque) (call Activate (m_body this))\<rparr>
      else this)"

definition applyTorqueImpulse ::
  "'m Env \<Rightarrow> 'm PhysicsRigidBody \<Rightarrow> Vector3 \<Rightarrow> 'm PhysicsRigidBody" where
  "applyTorqueImpulse E this torque =
     (if lengthSquared torque > MATH_EPSILON E then
        this\<lparr>m_body := call (ApplyTorqueImpulse torque) (call Activate (m_body this))\<rparr>
      else this)"

subsection \<open>Creation from properties\<close>

text \<open>
  Modelled from the spec: \<open>setKinematic\<close>, \<open>setGravity\<close> and
  \<open>setAnisotropicFriction\<close> are not under src/; each is the call that hands the
  kinematic flag or the vector to the Bullet body.
\<close>

definition setKinematic :: "'m PhysicsRigidBody \<Rightarrow> bool \<Rightarrow> 'm PhysicsRigidBody" where
  "setKinematic this kinematic = this\<lparr>m_body := call (SetKinematic kinematic) (m_body this)\<rparr>"

definition setGravity :: "'m PhysicsRigidBody \<Rightarrow> Vector3 \<Rightarrow> 'm PhysicsRigidBody" where
  "setGravity this gravity = this\<lparr>m_body := call (SetGravity gravity) (m_body this)\<rparr>"

definition setAnisotropicFriction :: "'m PhysicsRigidBody \<Rightarrow> Vector3 \<Rightarrow> 'm PhysicsRigidBody" where
  "setAnisotropicFriction this friction =
     this\<lparr>m_body := call (SetAnisotropicFriction friction) (m_body this)\<rparr>"

text \<open>The local variables of \<open>create\<close> that the properties are loaded into.\<close>

record create_vars =
  v_type :: ShapeType
  v_mass :: real
  v_friction :: real
  v_restitution :: real
  v_linearDamping :: real
  v_angularDamping :: real
  v_kinematic :: bool
  v_gravity :: "Vector3 option"
  v_anisotropicFriction :: "Vector3 option"
  v_imagePath :: "string option"
  v_radius :: real
  v_height :: real

definition defaults :: create_vars where
  "defaults =
     \<lparr>v_type = SHAPE_NONE, v_mass = 0, v_friction = 0.5, v_restitution = 0,
      v_linearDamping = 0, v_angularDamping = 0, v_kinematic = False, v_gravity = None,
      v_anisotropicFriction = None, v_imagePath = None, v_radius = -1, v_height = -1\<rparr>"

text \<open>
  The loop over the properties, in their order; \<open>Inl\<close> is the early return on an
  unsupported type.
\<close>

fun loadProperties ::
  "'m Env \<Rightarrow> (string \<times> string) list \<Rightarrow> create_vars \<Rightarrow> warning + create_vars" where
  "loadProperties E [] v = Inr v"
| "loadProperties E ((name, val) # ps) v =
     (if name = ''type'' then
        (if val = ''BOX'' then loadProperties E ps (v\<lparr>v_type := SHAPE_BOX\<rparr>)
         else if val = ''SPHERE'' then loadProperties E ps (v\<lparr>v_type := SHAPE_SPHERE\<rparr>)
         else if val = ''MESH'' then loadProperties E ps (v\<lparr>v_type := SHAPE_MESH\<rparr>)
         else if val = ''HEIGHTFIELD'' then loadProperties E ps (v\<lparr>v_type := SHAPE_HEIGHTFIELD\<rparr>)
         else if val = ''CAPSULE'' then loadProperties E ps (v\<lparr>v_type := SHAPE_CAPSULE\<rparr>)
         else Inl (UnsupportedType val))
      else if name = ''mass'' then
        loadProperties E ps (v\<lparr>v_mass := Properties_getFloat E val\<rparr>)
      else if name = ''friction'' then
        loadProperties E ps (v\<lparr>v_friction := Properties_getFloat E val\<rparr>)
      else if name = ''restitution'' then
        loadProperties E ps (v\<lparr>v_restitution := Properties_getFloat E val\<rparr>)
      else if name = ''linearDamping'' then
        loadProperties E ps (v\<lparr>v_linearDamping := Properties_getFloat E val\<rparr>)
      else if name = ''angularDamping'' then
        loadProperties E ps (v\<lparr>v_angularDamping := Properties_getFloat E val\<rparr>)
      else if name = ''kinematic'' then
        loadProperties E ps (v\<lparr>v_kinematic := Properties_getBool E val\<rparr>)
      else if name = ''gravity'' then
        loadProperties E ps (v\<lparr>v_gravity := Some (Properties_getVector3 E val)\<rparr>)
      else if name = ''anisotropicFriction'' then
        loadProperties E ps (v\<lparr>v_anisotropicFriction := Some (Properties_getVector3 E val)\<rparr>)
      else if name = ''image'' then
        loadProperties E ps (v\<lparr>v_imagePath := Some val\<rparr>)
      else if name = ''radius'' then
        loadProperties E ps (v\<lparr>v_radius := Properties_getFloat E val\<rparr>)
      else if name = ''height'' then
        loadProperties E ps (v\<lparr>v_height := Properties_getFloat E val\<rparr>)
      else loadProperties E ps v)"

text \<open>
  The \<open>switch\<close> that creates the body: it returns null from \<open>create\<close> at once, or
  goes on with a body or with null.
\<close>

datatype 'm switch_result =
    ReturnNull "warning list"
  | GoOn "warning list" "'m PhysicsRigidBody option"

definition createBody ::
  "'m Env \<Rightarrow> 'm Node \<Rightarrow> create_vars \<Rightarrow> fault + 'm switch_result" where
  "createBody E node v =
     (case v_type v of
        SHAPE_HEIGHTFIELD \<Rightarrow>
          (case v_imagePath v of
             None \<Rightarrow> Inr (GoOn [HeightfieldRequiresImagePath] None)
           | Some imagePath \<Rightarrow>
               (case Image_create E imagePath of
                  None \<Rightarrow> Inr (ReturnNull [])
                | Some img \<Rightarrow>
                    (case img_format img of
                       OtherFormat \<Rightarrow> Inr (ReturnNull [PixelFormatNotSupported])
                     | _ \<Rightarrow>
                         bind_fault
                           (new_PhysicsRigidBody_heightfield E node img (v_mass v) (v_friction v)
                              (v_restitution v) (v_linearDamping v) (v_angularDamping v))
                           (\<lambda>body. Inr (GoOn [] (Some body))))))
      | SHAPE_CAPSULE \<Rightarrow>
          (if v_radius v = -1 \<or> v_height v = -1 then
             Inr (GoOn [CapsuleRequiresRadiusAndHeight] None)
           else
             bind_fault
               (new_PhysicsRigidBody_capsule E node (v_radius v) (v_height v) (v_mass v)
                  (v_friction v) (v_restitution v) (v_linearDamping v) (v_angularDamping v))
               (\<lambda>body. Inr (GoOn [] (Some body))))
      | _ \<Rightarrow>
          bind_fault
            (new_PhysicsRigidBody E node (v_type v) (v_mass v) (v_friction v)
               (v_restitution v) (v_linearDamping v) (v_angularDamping v))
            (\<lambda>body. Inr (GoOn [] (Some body))))"

text \<open>\<open>body->f(...)\<close> on the pointer \<open>body\<close>, which may be null.\<close>

definition on_body ::
  "'m PhysicsRigidBody option \<Rightarrow> ('m PhysicsRigidBody \<Rightarrow> 'm PhysicsRigidBody) \<Rightarrow>
     fault + 'm PhysicsRigidBody option" where
  "on_body body f = (case body of None \<Rightarrow> Inl NullDereference | Some b \<Rightarrow> Inr (Some (f b)))"

definition setInitialProperties ::
  "create_vars \<Rightarrow> 'm PhysicsRigidBody option \<Rightarrow> fault + 'm PhysicsRigidBody option" where
  "setInitialProperties v body =
     bind_fault
       (if v_kinematic v then on_body body (\<lambda>b. setKinematic b (v_kinematic v)) else Inr body)
       (\<lambda>body.
          bind_fault
            (case v_gravity v of
               Some gravity \<Rightarrow> on_body body (\<lambda>b. setGravity b gravity)
             | None \<Rightarrow> Inr body)
            (\<lambda>body.
               case v_anisotropicFriction v of
                 Some anisotropicFriction \<Rightarrow>
                   on_body body (\<lambda>b. setAnisotropicFriction b anisotropicFriction)
               | None \<Rightarrow> Inr body))"

text \<open>
  \<open>create(Node*, Properties*)\<close> on a properties object that is not null: the warnings
  logged and the pointer returned, or a fault.
\<close>

definition create ::
  "'m Env \<Rightarrow> 'm Node \<Rightarrow> Properties \<Rightarrow> fault + (warning list \<times> 'm PhysicsRigidBody option)" where
  "create E node properties =
     (if prop_namespace properties \<noteq> ''rigidbody'' then
        Inr ([FailedToLoadFromProperties], None)
      else
        (case loadProperties E (prop_list properties) defaults of
           Inl w \<Rightarrow> Inr ([w], None)
         | Inr v \<Rightarrow>
             if v_type v = SHAPE_MESH \<and> primitiveType node \<noteq> TRIANGLES then
               Inr ([MeshPrimitiveTypeNotSupported], None)
             else
               bind_fault (createBody E node v) (\<lambda>r.
                 case r of
                   ReturnNull ws \<Rightarrow> Inr (ws, None)
                 | GoOn ws body \<Rightarrow>
                     bind_fault (setInitialProperties v body) (\<lambda>body. Inr (ws, body)))))"

subsection \<open>Height queries\<close>

text \<open>The cached inverse of the node's world matrix, recomputed when it is dirty.\<close>

definition updateInverse :: "'m Env \<Rightarrow> 'm PhysicsRigidBody \<Rightarrow> 'm PhysicsRigidBody" where
  "updateInverse E this =
     (if m_inverseIsDirty this then
        this\<lparr>m_inverse :=
               Some (Matrix_invert E (worldMatrix (m_node this))
                       (case m_inverse this of None \<Rightarrow> Matrix_new E | Some i \<Rightarrow> i)),
             m_inverseIsDirty := False\<rparr>
      else this)"

text \<open>\<open>(v + (0.5f * (n - 1))) * n / (n - 1)\<close> for a float \<open>v\<close> and an unsigned \<open>n\<close>.\<close>

definition gridCoordinate :: "real \<Rightarrow> uint \<Rightarrow> xfloat" where
  "gridCoordinate v n =
     fdiv ((v + 0.5 * real (unat (n - 1))) * real (unat n)) (real (unat (n - 1)))"

definition getHeight ::
  "'m Env \<Rightarrow> 'm PhysicsRigidBody \<Rightarrow> real \<Rightarrow> real \<Rightarrow>
     fault + (real \<times> warning list \<times> 'm PhysicsRigidBody)" where
  "getHeight E this x y =
     (case m_shape this of
        None \<Rightarrow> Inl NullDereference
      | Some shape \<Rightarrow>
          if getShapeType shape \<noteq> TERRAIN_SHAPE_PROXYTYPE then
            Inr (0, [HeightOfNonHeightfield], this)
          else
            (let this' = updateInverse E this in
             case m_inverse this' of
               None \<Rightarrow> Inl NullDereference
             | Some inverseMatrix \<Rightarrow>
                 (let v = Matrix_transform E inverseMatrix (Vector3 x 0 y);
                      x' = gridCoordinate (vx v) (m_width this');
                      y' = gridCoordinate (vz v) (m_height this')
                  in
                    if xless x' 0 \<or> xgreater x' (real (unat (m_width this'))) \<or>
                       xless y' 0 \<or> xgreater y' (real (unat (m_height this')))
                    then Inr (0, [HeightOutsideRange], this')
                    else
                      (case m_heightfieldData this' of
                         None \<Rightarrow> Inl NullDereference
                       | Some data \<Rightarrow>
                           bind_fault
                             (calculateHeightX data (m_width this') (m_height this') x' y')
                             (\<lambda>h. Inr (h, [], this'))))))"

definition supportsConstraints :: "'m PhysicsRigidBody \<Rightarrow> fault + bool" where
  "supportsConstraints this =
     (case m_shape this of
        None \<Rightarrow> Inl NullDereference
      | Some shape \<Rightarrow>
          Inr (getShapeType shape \<noteq> TRIANGLE_MESH_SHAPE_PROXYTYPE \<and>
               getShapeType shape \<noteq> TERRAIN_SHAPE_PROXYTYPE))"

definition transformChanged :: "'m PhysicsRigidBody \<Rightarrow> 'm PhysicsRigidBody" where
  "transformChanged this = this\<lparr>m_inverseIsDirty := True\<rparr>"

section \<open>Example inputs\<close>

text \<open>
  An environment whose matrices are all the identity, with a properties reader that
  reads every value as zero or false and an image loader that finds no file.
\<close>

definition identity_Env :: "unit Env" where
  "identity_Env =
     \<lparr>MATH_EPSILON = 1 / 1000000, Matrix_new = (), Matrix_invert = (\<lambda>_ _. ()),
      Matrix_transform = (\<lambda>_ v. v), Matrix_getScale = (\<lambda>_. Vector3 1 1 1),
      Properties_getFloat = (\<lambda>_. 0), Properties_getBool = (\<lambda>_. False),
      Properties_getVector3 = (\<lambda>_. Vector3 0 0 0), Image_create = (\<lambda>_. None)\<rparr>"

text \<open>A node whose bounding box is 1 wide, 2 high and 1 long, and one that is 5/2 wide and 3/2 long.\<close>

definition unit_node :: "unit Node" where
  "unit_node =
     \<lparr>worldMatrix = (), boundingBox_min = Vector3 0 0 0, boundingBox_max = Vector3 1 2 1,
      boundingSphere_radius = 1, primitiveType = TRIANGLES\<rparr>"

definition wide_node :: "unit Node" where
  "wide_node =
     \<lparr>worldMatrix = (), boundingBox_min = Vector3 0 0 0,
      boundingBox_max = Vector3 (5 / 2) 2 (3 / 2),
      boundingSphere_radius = 1, primitiveType = TRIANGLES\<rparr>"

text \<open>An RGB image of one grey pixel, and one of 3 by 2 pixels, black but for pixel (2, 0).\<close>

definition grey_pixel :: Image where
  "grey_pixel = \<lparr>img_width = 1, img_height = 1, img_format = RGB, img_data = [128, 128, 128]\<rparr>"

definition image_3x2 :: Image where
  "image_3x2 =
     \<lparr>img_width = 3, img_height = 2, img_format = RGB,
      img_data = [0, 0, 0,  0, 0, 0,  128, 128, 128,
                  0, 0, 0,  0, 0, 0,  0, 0, 0]\<rparr>"

text \<open>The Bullet body of a static object, and a box and a 2 by 2 heightfield around it.\<close>

definition static_body :: btRigidBody where
  "static_body =
     \<lparr>bt_mass = 0, bt_friction = 1 / 2, bt_restitution = 0, bt_linearDamping = 0,
      bt_angularDamping = 0, bt_localInertiaFromShape = False, bt_calls = []\<rparr>"

definition box_body :: "unit PhysicsRigidBody" where
  "box_body =
     \<lparr>m_shape = Some (Box (Vector3 0 0 0) (Vector3 1 2 1) (Vector3 1 1 1)),
      m_body = static_body, m_node = unit_node, m_heightfieldData = None,
      m_width = 0, m_height = 0, m_inverse = None, m_inverseIsDirty = True\<rparr>"

definition terrain_2x2 :: "unit PhysicsRigidBody" where
  "terrain_2x2 =
     \<lparr>m_shape = Some (Heightfield 2 2 [1, 1, 1, 1] 0 2),
      m_body = static_body, m_node = unit_node, m_heightfieldData = Some [1, 1, 1, 1],
      m_width = 2, m_height = 2, m_inverse = None, m_inverseIsDirty = True\<rparr>"

text \<open>The heightfield of 3 columns and 2 rows that is built on \<open>wide_node\<close>.\<close>

definition wide_terrain :: "unit PhysicsRigidBody" where
  "wide_terrain =
     \<lparr>m_shape = Some (Heightfield 3 2 [1, 1, 1, 1, 1, 1] 0 2),
      m_body = static_body, m_node = wide_node,
      m_heightfieldData = Some [1, 1, 1, 1, 1, 1],
      m_width = 3, m_height = 2, m_inverse = None, m_inverseIsDirty = True\<rparr>"

section \<open>Facts about the machine values\<close>

lemma bind_fault_Inr:
  "bind_fault m f = Inr r \<Longrightarrow> \<exists>v. m = Inr v \<and> f v = Inr r"
  by (cases m) (simp_all add: bind_fault_def)

lemma trunc_of_nat: "trunc (real n) = int n"
  by (simp add: trunc_def)

lemma modf_of_nat: "modf (real n) = 0"
  by (simp add: modf_def trunc_of_nat)

lemma float_to_uint_unat: "float_to_uint (real (unat (x::uint))) = Inr x"
proof -
  have "int (unat x) < 2 ^ 32" using unsigned_less [of x, where 'a = int] by simp
  then show ?thesis unfolding float_to_uint_def trunc_of_nat by simp
qed

lemma trunc_split: "0 \<le> f \<Longrightarrow> f < 1 \<Longrightarrow> trunc (real n + f) = int n"
proof -
  assume f: "0 \<le> f" "f < 1"
  have "\<lfloor>real n + f\<rfloor> = int n" by (rule floor_unique) (use f in simp_all)
  then show ?thesis using f by (simp add: trunc_def)
qed

lemma float_to_uint_split:
  fixes x1 :: uint
  assumes "0 \<le> f" "f < 1"
  shows "float_to_uint (real (unat x1) + f) = Inr x1"
proof -
  have "int (unat x1) < 2 ^ 32" using unsigned_less [of x1, where 'a = int] by simp
  then show ?thesis unfolding float_to_uint_def trunc_split [OF assms] by simp
qed

lemma modf_split: "0 \<le> f \<Longrightarrow> f < 1 \<Longrightarrow> modf (real n + f) = f"
  unfolding modf_def by (simp add: trunc_split)

lemma float_to_uint_Inr:
  assumes "float_to_uint r = Inr n" "0 \<le> r"
  shows "unat n = nat \<lfloor>r\<rfloor>"
proof -
  from assms have t: "trunc r = \<lfloor>r\<rfloor>" by (simp add: trunc_def)
  from assms(1) have b: "0 \<le> trunc r" "trunc r < 2 ^ 32" and n: "n = word_of_int (trunc r)"
    by (auto simp: float_to_uint_def split: if_splits)
  have "uint n = trunc r" unfolding n using b by (simp add: uint_word_of_int take_bit_int_eq_self)
  then show ?thesis using t by (simp add: unat_eq_nat_uint)
qed

lemma unat_Suc_nonzero:
  fixes n :: uint
  assumes "n + 1 \<noteq> 0"
  shows "unat (n + 1) = unat n + 1"
  using unatSuc [of n] assms by (simp add: add.commute)

lemma floor_eq_ceiling: "(\<lfloor>r::real\<rfloor> = \<lceil>r\<rceil>) = (r \<in> \<int>)"
proof
  assume eq: "\<lfloor>r\<rfloor> = \<lceil>r\<rceil>"
  have "of_int \<lfloor>r\<rfloor> \<le> r" "r \<le> of_int \<lceil>r\<rceil>" by simp_all
  moreover from eq have "(of_int \<lceil>r\<rceil> :: real) = of_int \<lfloor>r\<rfloor>" by simp
  ultimately have "r = of_int \<lfloor>r\<rfloor>" by linarith
  then show "r \<in> \<int>" by (metis Ints_of_int)
next
  assume "r \<in> \<int>"
  then show "\<lfloor>r\<rfloor> = \<lceil>r\<rceil>" by (auto elim: Ints_cases)
qed

lemma sample_Inr: "unat i < length data \<Longrightarrow> sample data i = Inr (data ! unat i)"
  by (simp add: sample_def)

lemma store_length: "store d i v = Inr d' \<Longrightarrow> length d' = length d"
  by (auto simp: store_def split: if_splits)

lemma store_nonempty: "store d i v = Inr d' \<Longrightarrow> 0 < length d"
  by (auto simp: store_def split: if_splits)

lemma fold_fault_length:
  assumes "\<And>a s s'. f a s = Inr s' \<Longrightarrow> length s' = length s"
  shows "fold_fault f xs s = Inr s' \<Longrightarrow> length s' = length s"
proof (induction xs arbitrary: s)
  case Nil
  then show ?case by simp
next
  case (Cons a xs)
  from Cons.prems obtain s1 where s1: "f a s = Inr s1" and rest: "fold_fault f xs s1 = Inr s'"
    by (auto dest: bind_fault_Inr)
  from Cons.IH [OF rest] assms [OF s1] show ?case by simp
qed

lemma fold_fault_store_length:
  "fold_fault (\<lambda>a d. bind_fault (g a d) (store d (idx a))) xs s = Inr s' \<Longrightarrow>
     length s' = length s"
  by (erule fold_fault_length [rotated]) (auto dest!: bind_fault_Inr store_length)

lemma fold_fault_Cons_Inr: "fold_fault f (a # xs) s = Inr s' \<Longrightarrow> \<exists>s1. f a s = Inr s1"
  by (auto dest: bind_fault_Inr)

lemma counters_incl_Cons: "\<exists>ns. counters_incl n = 0 # ns"
proof -
  have "[0..<Suc (unat n)] = 0 # [Suc 0..<Suc (unat n)]" by (rule upt_conv_Cons) simp
  then show ?thesis unfolding counters_incl_def by (simp del: upt_Suc)
qed

lemma replicate_numeral_Cons: "replicate (numeral k) x = x # replicate (pred_numeral k) x"
  by (simp add: numeral_eq_Suc)

lemma list_update_numeral_Cons: "(x # xs)[numeral k := y] = x # xs[pred_numeral k := y]"
  by (simp add: numeral_eq_Suc)

lemmas eval_simps =
  bind_fault_def Let_def float_to_uint_def trunc_def modf_def sample_def store_def
  fdiv_def counters_def counters_incl_def calculateHeight_def calculateHeightX_def
  pixelSize_def getData_def pixelHeight_def pixelHeights_def heightfieldSamples_def
  upt_rec replicate_numeral_Cons list_update_numeral_Cons word_le_nat_alt word_less_nat_alt

section \<open>The grid of the heightfield\<close>

lemma heightfieldSamples_length:
  assumes "heightfieldSamples data img sizeWidth sizeHeight = Inr hf"
  shows "length hf = unat ((sizeWidth + 1) * (sizeHeight + 1))"
proof -
  have "length hf = length (replicate (unat ((sizeWidth + 1) * (sizeHeight + 1))) (0::real))"
    using assms unfolding heightfieldSamples_def Let_def
    by (rule fold_fault_length [rotated]) (rule fold_fault_store_length)
  then show ?thesis by simp
qed

lemma heightfieldSamples_nonempty:
  assumes "heightfieldSamples data img sizeWidth sizeHeight = Inr hf"
  shows "0 < length hf"
proof -
  obtain rows where rows: "counters_incl sizeHeight = 0 # rows"
    using counters_incl_Cons by blast
  obtain cols where cols: "counters_incl sizeWidth = 0 # cols"
    using counters_incl_Cons by blast
  let ?buf = "replicate (unat ((sizeWidth + 1) * (sizeHeight + 1))) (0::real)"
  from assms obtain s1 where
    "fold_fault
       (\<lambda>col heightfieldData.
          bind_fault
            (calculateHeightX data (img_width img) (img_height img)
               (xmul (real (unat col))
                  (fdiv (real (unat (img_width img - 1))) (real (unat sizeWidth))))
               (xmul (real (unat (sizeHeight - 0)))
                  (fdiv (real (unat (img_height img - 1))) (real (unat sizeHeight)))))
            (store heightfieldData (0 * (sizeWidth + 1) + col)))
       (0 # cols) ?buf = Inr s1"
    unfolding heightfieldSamples_def Let_def rows cols
    by (blast dest: fold_fault_Cons_Inr)
  then obtain s2 v where "store ?buf 0 v = Inr s2"
    by (fastforce dest: fold_fault_Cons_Inr bind_fault_Inr)
  then have "0 < length ?buf" by (rule store_nonempty)
  then show ?thesis using heightfieldSamples_length [OF assms] by simp
qed

lemma float_to_uint_examples:
  "float_to_uint 1 = Inr 1" "float_to_uint (3 / 2) = Inr 1" "float_to_uint (5 / 2) = Inr 2"
  by (simp_all add: float_to_uint_def trunc_def)

lemma pixelHeights_grey_pixel: "pixelHeights grey_pixel 0 2 = Inr [1]"
  by (simp add: grey_pixel_def eval_simps)

lemma heightfieldSamples_grey_pixel:
  "heightfieldSamples [1] grey_pixel 1 1 = Inr [1, 1, 1, 1]"
  "heightfieldSamples [1] grey_pixel 2 1 = Inr [1, 1, 1, 1, 1, 1]"
  by (simp_all add: grey_pixel_def eval_simps)

lemma wide_terrain_built:
  "new_PhysicsRigidBody_heightfield identity_Env wide_node grey_pixel 0 (1 / 2) 0 0 0 =
     Inr wide_terrain"
  unfolding new_PhysicsRigidBody_heightfield_def
  by (simp add: wide_node_def float_to_uint_examples pixelHeights_grey_pixel
        heightfieldSamples_grey_pixel bind_fault_def createRigidBodyInternal_def
        wide_terrain_def static_body_def)

lemma terrain_2x2_built:
  "new_PhysicsRigidBody_heightfield identity_Env unit_node grey_pixel 0 (1 / 2) 0 0 0 =
     Inr terrain_2x2"
  unfolding new_PhysicsRigidBody_heightfield_def
  by (simp add: unit_node_def float_to_uint_examples pixelHeights_grey_pixel
        heightfieldSamples_grey_pixel bind_fault_def createRigidBodyInternal_def
        terrain_2x2_def static_body_def)

text \<open>
  C1, as amended. The extents of the bounding box are converted to unsigned integers,
  which discards their fractional part. So whenever the construction of a heightfield
  body from an image completes, on a box of extents \<open>node_width\<close> and \<open>node_length\<close>
  that are not negative, the grid has exactly \<open>floor(node_width) + 1\<close> columns and
  \<open>floor(node_length) + 1\<close> rows, and the buffer allocated has \<open>_width * _height\<close>
  cells. The number of columns (rows) is \<open>ceil(node_width) + 1\<close>
  (\<open>ceil(node_length) + 1\<close>) exactly when the extent is an integer.
\<close>

theorem heightfield_grid_size:
  assumes built: "new_PhysicsRigidBody_heightfield E node img mass friction restitution
                    linearDamping angularDamping = Inr b"
    and width: "node_width = vx (boundingBox_max node) - vx (boundingBox_min node)"
    and len: "node_length = vz (boundingBox_max node) - vz (boundingBox_min node)"
    and nonneg: "0 \<le> node_width" "0 \<le> node_length"
  shows "unat (m_width b) = nat \<lfloor>node_width\<rfloor> + 1 \<and>
         unat (m_height b) = nat \<lfloor>node_length\<rfloor> + 1 \<and>
         map_option length (m_heightfieldData b) = Some (unat (m_width b * m_height b)) \<and>
         (unat (m_width b) = nat \<lceil>node_width\<rceil> + 1) = (node_width \<in> \<int>) \<and>
         (unat (m_height b) = nat \<lceil>node_length\<rceil> + 1) = (node_length \<in> \<int>)"
proof -
  from built obtain data sizeWidth sizeHeight hf body where
    sw: "float_to_uint node_width = Inr sizeWidth" and
    sh: "float_to_uint node_length = Inr sizeHeight" and
    hf: "heightfieldSamples data img sizeWidth sizeHeight = Inr hf" and
    b: "b = \<lparr>m_shape = Some (Heightfield (sizeWidth + 1) (sizeHeight + 1) hf
                             (vy (boundingBox_min node)) (vy (boundingBox_max node))),
              m_body = body, m_node = node, m_heightfieldData = Some hf,
              m_width = sizeWidth + 1, m_height = sizeHeight + 1,
              m_inverse = None, m_inverseIsDirty = True\<rparr>"
    unfolding new_PhysicsRigidBody_heightfield_def Let_def width len
    by (auto dest!: bind_fault_Inr)
  have size: "length hf = unat ((sizeWidth + 1) * (sizeHeight + 1))"
    using hf by (rule heightfieldSamples_length)
  have "0 < length hf" using hf by (rule heightfieldSamples_nonempty)
  with size have "(sizeWidth + 1) * (sizeHeight + 1) \<noteq> 0" by auto
  then have nz: "sizeWidth + 1 \<noteq> 0" "sizeHeight + 1 \<noteq> 0" by auto
  have w: "unat (m_width b) = nat \<lfloor>node_width\<rfloor> + 1"
    using unat_Suc_nonzero [OF nz(1)] float_to_uint_Inr [OF sw nonneg(1)] by (simp add: b)
  have h: "unat (m_height b) = nat \<lfloor>node_length\<rfloor> + 1"
    using unat_Suc_nonzero [OF nz(2)] float_to_uint_Inr [OF sh nonneg(2)] by (simp add: b)
  have fc: "\<And>r::real. 0 \<le> r \<Longrightarrow> (nat \<lfloor>r\<rfloor> + 1 = nat \<lceil>r\<rceil> + 1) = (r \<in> \<int>)"
  proof -
    fix r :: real
    assume r: "0 \<le> r"
    then have "0 \<le> \<lfloor>r\<rfloor>" "0 \<le> \<lceil>r\<rceil>" by simp_all
    then have "(nat \<lfloor>r\<rfloor> + 1 = nat \<lceil>r\<rceil> + 1) = (\<lfloor>r\<rfloor> = \<lceil>r\<rceil>)"
      by (simp add: eq_nat_nat_iff)
    then show "(nat \<lfloor>r\<rfloor> + 1 = nat \<lceil>r\<rceil> + 1) = (r \<in> \<int>)"
      by (simp add: floor_eq_ceiling)
  qed
  show ?thesis
    using w h size fc [OF nonneg(1)] fc [OF nonneg(2)] by (simp add: b)
qed

theorem heightfield_grid_size_witness:
  "new_PhysicsRigidBody_heightfield identity_Env wide_node grey_pixel 0 (1 / 2) 0 0 0 =
     Inr wide_terrain \<and>
   unat (m_width wide_terrain) = 3 \<and> unat (m_height wide_terrain) = 2 \<and>
   map_option length (m_heightfieldData wide_terrain) = Some 6"
proof -
  have "(5 / 2 :: real) = vx (boundingBox_max wide_node) - vx (boundingBox_min wide_node)"
    and "(3 / 2 :: real) = vz (boundingBox_max wide_node) - vz (boundingBox_min wide_node)"
    by (simp_all add: wide_node_def)
  from heightfield_grid_size [OF wide_terrain_built this] wide_terrain_built
  show ?thesis by (simp add: wide_terrain_def)
qed

text \<open>
  C1 as stated fails: on a box 5/2 wide and 3/2 long the grid has 3 columns and 2 rows,
  where \<open>ceil(5/2) + 1 = 4\<close> and \<open>ceil(3/2) + 1 = 3\<close>.
\<close>

theorem heightfield_grid_size_counterexample:
  "new_PhysicsRigidBody_heightfield identity_Env wide_node grey_pixel 0 (1 / 2) 0 0 0 =
     Inr wide_terrain \<and>
   vx (boundingBox_max wide_node) - vx (boundingBox_min wide_node) = 5 / 2 \<and>
   vz (boundingBox_max wide_node) - vz (boundingBox_min wide_node) = 3 / 2 \<and>
   unat (m_width wide_terrain) = 3 \<and> nat \<lceil>5 / 2 :: real\<rceil> + 1 = 4 \<and>
   unat (m_height wide_terrain) = 2 \<and> nat \<lceil>3 / 2 :: real\<rceil> + 1 = 3"
  by (simp add: wide_terrain_built) (simp add: wide_node_def wide_terrain_def)

section \<open>The height of a pixel\<close>

text \<open>
  C2. The height of pixel (x, y) should come from the three colour channels of that
  same pixel. The source writes \<open>data[x + y * width]\<close> but reads the bytes of pixel
  \<open>x + y * height\<close>. On the image of 3 by 2 pixels, for pixel (0, 1), whose bytes
  9, 10 and 11 are all 0 (a height of 0 between 0 and 2), the source reads the bytes
  of pixel (2, 0) and computes the height 1.
\<close>

theorem pixelHeights_reads_wrong_pixel:
  "pixelHeights image_3x2 0 2 = Inr [0, 0, 1, 1, 0, 0] \<and>
   pixelHeight image_3x2 0 2 0 1 = Inr 1 \<and>
   img_width image_3x2 = 3 \<and> img_height image_3x2 = 2 \<and>
   img_data image_3x2 ! 9 = 0 \<and> img_data image_3x2 ! 10 = 0 \<and> img_data image_3x2 ! 11 = 0"
  by (simp add: image_3x2_def eval_simps)

section \<open>Interpolation\<close>

lemma calculateHeight_split:
  fixes x1 y1 :: uint
  assumes "0 \<le> fx" "fx < 1" "0 \<le> fy" "fy < 1"
  shows "calculateHeight data w h (real (unat x1) + fx) (real (unat y1) + fy) =
    (if x1 + 1 \<ge> w \<and> y1 + 1 \<ge> h then
           sample data (x1 + y1 * w)
         else if x1 + 1 \<ge> w then
           bind_fault (sample data (x1 + y1 * w)) (\<lambda>d11.
           bind_fault (sample data (x1 + (y1 + 1) * w)) (\<lambda>d12.
             Inr (d11 * (1 - fy) + d12 * fy)))
         else if y1 + 1 \<ge> h then
           bind_fault (sample data (x1 + y1 * w)) (\<lambda>d11.
           bind_fault (sample data (x1 + 1 + y1 * w)) (\<lambda>d21.
             Inr (d11 * (1 - fx) + d21 * fx)))
         else
           bind_fault (sample data (x1 + y1 * w)) (\<lambda>d11.
           bind_fault (sample data (x1 + (y1 + 1) * w)) (\<lambda>d12.
           bind_fault (sample data (x1 + 1 + (y1 + 1) * w)) (\<lambda>d22.
           bind_fault (sample data (x1 + 1 + y1 * w)) (\<lambda>d21.
             Inr (d11 * (1 - fx) * (1 - fy) + d12 * (1 - fx) * fy +
                  d22 * fx * fy + d21 * fx * (1 - fy)))))))"
  unfolding calculateHeight_def float_to_uint_split [OF assms(1,2)]
    float_to_uint_split [OF assms(3,4)] modf_split [OF assms(1,2)] modf_split [OF assms(3,4)]
  by (simp add: bind_fault_def Let_def)

lemma example_grid: "calculateHeight [0, 0, 10, 10] 2 2 (1 / 2) (1 / 2) = Inr 5"
  using calculateHeight_split [of "1/2" "1/2" "[0, 0, 10, 10]" 2 2 0 0]
  by (simp add: sample_def bind_fault_def word_le_nat_alt)

text \<open>
  C3. For a coordinate \<open>(x, y)\<close> that is not negative, with integer parts \<open>x1\<close>, \<open>y1\<close> and
  fractional parts \<open>fx\<close>, \<open>fy\<close>, and \<open>x2 = x1 + 1\<close>, \<open>y2 = y1 + 1\<close>, wherever the samples
  that are read lie in the buffer: \<open>calculateHeight\<close> returns the corner sample
  \<open>grid[x1 + y1*w]\<close> when \<open>x2 \<ge> w\<close> and \<open>y2 \<ge> h\<close>; interpolates along y between
  \<open>grid[x1 + y1*w]\<close> and \<open>grid[x1 + y2*w]\<close> when only \<open>x2 \<ge> w\<close>; interpolates along x
  when only \<open>y2 \<ge> h\<close>; and otherwise blends the four corners (x1,y1), (x1,y2), (x2,y2),
  (x2,y1) with the weights (1-fx)(1-fy), (1-fx)fy, fx fy, fx(1-fy). The grid
  [0, 0, 10, 10] of width 2 sampled at (0.5, 0.5) yields 5.
\<close>

theorem calculateHeight_interpolation:
  fixes x1 y1 w h :: uint and fx fy :: real
  assumes "0 \<le> fx" "fx < 1" "0 \<le> fy" "fy < 1"
  shows
    "(w \<le> x1 + 1 \<and> h \<le> y1 + 1 \<and> unat (x1 + y1 * w) < length data \<longrightarrow>
        calculateHeight data w h (real (unat x1) + fx) (real (unat y1) + fy) =
          Inr (data ! unat (x1 + y1 * w))) \<and>
     (w \<le> x1 + 1 \<and> y1 + 1 < h \<and>
      unat (x1 + y1 * w) < length data \<and> unat (x1 + (y1 + 1) * w) < length data \<longrightarrow>
        calculateHeight data w h (real (unat x1) + fx) (real (unat y1) + fy) =
          Inr (data ! unat (x1 + y1 * w) * (1 - fy) + data ! unat (x1 + (y1 + 1) * w) * fy)) \<and>
     (x1 + 1 < w \<and> h \<le> y1 + 1 \<and>
      unat (x1 + y1 * w) < length data \<and> unat (x1 + 1 + y1 * w) < length data \<longrightarrow>
        calculateHeight data w h (real (unat x1) + fx) (real (unat y1) + fy) =
          Inr (data ! unat (x1 + y1 * w) * (1 - fx) + data ! unat (x1 + 1 + y1 * w) * fx)) \<and>
     (x1 + 1 < w \<and> y1 + 1 < h \<and>
      unat (x1 + y1 * w) < length data \<and> unat (x1 + (y1 + 1) * w) < length data \<and>
      unat (x1 + 1 + (y1 + 1) * w) < length data \<and> unat (x1 + 1 + y1 * w) < length data \<longrightarrow>
        calculateHeight data w h (real (unat x1) + fx) (real (unat y1) + fy) =
          Inr (data ! unat (x1 + y1 * w) * (1 - fx) * (1 - fy) +
               data ! unat (x1 + (y1 + 1) * w) * (1 - fx) * fy +
               data ! unat (x1 + 1 + (y1 + 1) * w) * fx * fy +
               data ! unat (x1 + 1 + y1 * w) * fx * (1 - fy))) \<and>
     calculateHeight [0, 0, 10, 10] 2 2 (1 / 2) (1 / 2) = Inr 5"
proof -
  have lt: "\<And>a b :: uint. a < b \<Longrightarrow> \<not> b \<le> a" by simp
  show ?thesis
    unfolding calculateHeight_split [OF assms]
    by (intro conjI impI; (elim conjE)?)
       (simp_all add: sample_Inr bind_fault_def example_grid lt)
qed

theorem calculateHeight_interpolation_witness:
  "calculateHeight [0, 0, 10, 10] 2 2 (3 / 2) (3 / 2) = Inr 10 \<and>
   calculateHeight [0, 0, 10, 10] 2 2 (3 / 2) (1 / 2) = Inr 5 \<and>
   calculateHeight [0, 0, 10, 10] 2 2 (1 / 2) (3 / 2) = Inr 10 \<and>
   calculateHeight [0, 0, 10, 10] 2 2 (1 / 4) (1 / 4) = Inr (5 / 2)"
  using calculateHeight_interpolation [of "1/2" "1/2" 2 1 2 1 "[0, 0, 10, 10]"]
    calculateHeight_interpolation [of "1/2" "1/2" 2 1 2 0 "[0, 0, 10, 10]"]
    calculateHeight_interpolation [of "1/2" "1/2" 2 0 2 1 "[0, 0, 10, 10]"]
    calculateHeight_interpolation [of "1/4" "1/4" 2 0 2 0 "[0, 0, 10, 10]"]
  by (simp add: word_le_nat_alt word_less_nat_alt)

section \<open>Creation from properties\<close>

lemma create_heightfield_without_image_returns_null:
  assumes "prop_namespace p = ''rigidbody''"
    and "loadProperties E (prop_list p) defaults = Inr v"
    and "v_type v = SHAPE_HEIGHTFIELD" "v_imagePath v = None"
    and "\<not> v_kinematic v" "v_gravity v = None" "v_anisotropicFriction v = None"
  shows "create E node p = Inr ([HeightfieldRequiresImagePath], None)"
  using assms
  by (simp add: create_def createBody_def setInitialProperties_def bind_fault_def)

text \<open>
  C4. A property set of namespace \<open>rigidbody\<close> with the type HEIGHTFIELD and no image
  should yield no body after a warning, whatever its other keys. With a \<open>gravity\<close> key
  (in any environment, on any node) the source logs the warning, leaves \<open>body\<close> null
  and then calls \<open>body->setGravity\<close>: a null dereference.
\<close>

theorem create_heightfield_without_image_faults:
  "create E node
     \<lparr>prop_namespace = ''rigidbody'',
      prop_list = [(''type'', ''HEIGHTFIELD''), (''gravity'', ''0, -9.8, 0'')]\<rparr> =
     Inl NullDereference"
  by (simp add: create_def createBody_def setInitialProperties_def on_body_def defaults_def
        bind_fault_def)

section \<open>Height queries\<close>

text \<open>
  C5. On a rigid body whose collision shape is not a heightfield, \<open>getHeight\<close> returns 0
  for every pair of coordinates, after one warning, and leaves the whole body as it
  was, the cached inverse and its dirty flag included.
\<close>

theorem getHeight_non_heightfield:
  assumes "m_shape b = Some s" "getShapeType s \<noteq> TERRAIN_SHAPE_PROXYTYPE"
  shows "getHeight E b x y = Inr (0, [HeightOfNonHeightfield], b)"
  using assms by (simp add: getHeight_def)

theorem getHeight_non_heightfield_witness:
  "m_shape box_body = Some (Box (Vector3 0 0 0) (Vector3 1 2 1) (Vector3 1 1 1)) \<and>
   getShapeType (Box (Vector3 0 0 0) (Vector3 1 2 1) (Vector3 1 1 1)) \<noteq>
     TERRAIN_SHAPE_PROXYTYPE \<and>
   getHeight identity_Env box_body 3 4 = Inr (0, [HeightOfNonHeightfield], box_body)"
  using getHeight_non_heightfield
    [of box_body "Box (Vector3 0 0 0) (Vector3 1 2 1) (Vector3 1 1 1)" identity_Env 3 4]
  by (simp add: box_body_def)

text \<open>
  C6. On a heightfield body, when the coordinates \<open>(gx, gy)\<close> that the query point is
  taken to by the inverse transform and the rescaling to the grid fall outside
  \<open>[0, width] \<times> [0, height]\<close>, \<open>getHeight\<close> returns 0 after one warning. The buffer is
  not sampled: the result is the same on a body whose buffer is null.
\<close>

theorem getHeight_outside_range:
  assumes "m_shape b = Some s" "getShapeType s = TERRAIN_SHAPE_PROXYTYPE"
    and "m_inverse (updateInverse E b) = Some i"
    and "gx = gridCoordinate (vx (Matrix_transform E i (Vector3 x 0 y))) (m_width b)"
    and "gy = gridCoordinate (vz (Matrix_transform E i (Vector3 x 0 y))) (m_height b)"
    and "xless gx 0 \<or> xgreater gx (real (unat (m_width b))) \<or>
         xless gy 0 \<or> xgreater gy (real (unat (m_height b)))"
  shows "getHeight E b x y = Inr (0, [HeightOutsideRange], updateInverse E b) \<and>
         getHeight E (b\<lparr>m_heightfieldData := None\<rparr>) x y =
           Inr (0, [HeightOutsideRange], updateInverse E (b\<lparr>m_heightfieldData := None\<rparr>))"
proof -
  have w: "m_width (updateInverse E b) = m_width b" "m_height (updateInverse E b) = m_height b"
    by (simp_all add: updateInverse_def)
  have first: "getHeight E b x y = Inr (0, [HeightOutsideRange], updateInverse E b)"
    using assms unfolding getHeight_def Let_def w by simp
  let ?b = "b\<lparr>m_heightfieldData := None\<rparr>"
  have w': "m_width (updateInverse E ?b) = m_width b" "m_height (updateInverse E ?b) = m_height b"
    and i': "m_inverse (updateInverse E ?b) = m_inverse (updateInverse E b)"
    by (simp_all add: updateInverse_def)
  have second: "getHeight E ?b x y = Inr (0, [HeightOutsideRange], updateInverse E ?b)"
    using assms unfolding getHeight_def Let_def w' i' by simp
  from first second show ?thesis ..
qed

theorem getHeight_outside_range_witness:
  "gridCoordinate 1 2 = Finite 3 \<and> xgreater (Finite 3) (real (unat (2::uint))) \<and>
   getHeight identity_Env terrain_2x2 1 0 =
     Inr (0, [HeightOutsideRange],
          terrain_2x2\<lparr>m_inverse := Some (), m_inverseIsDirty := False\<rparr>)"
  using getHeight_outside_range
    [of terrain_2x2 "Heightfield 2 2 [1, 1, 1, 1] 0 2" identity_Env "()" "Finite 3" 1 0 "Finite 1"]
  by (simp add: terrain_2x2_def identity_Env_def updateInverse_def gridCoordinate_def fdiv_def)

section \<open>Forces\<close>

text \<open>
  C7. For a vector whose squared magnitude is at most \<open>MATH_EPSILON\<close>, each of
  \<open>applyForce\<close>, \<open>applyImpulse\<close>, \<open>applyTorque\<close> and \<open>applyTorqueImpulse\<close> leaves the
  body as it was: the Bullet body receives no call, so it is not activated and its
  velocity does not change. For a vector above the threshold the Bullet body is
  activated first and then receives the force, impulse or torque, at the relative
  position when one is given.
\<close>

theorem apply_below_and_above_epsilon:
  "(lengthSquared v \<le> MATH_EPSILON E \<longrightarrow>
      applyForce E b v p = b \<and> applyImpulse E b v p = b \<and>
      applyTorque E b v = b \<and> applyTorqueImpulse E b v = b) \<and>
   (lengthSquared v > MATH_EPSILON E \<longrightarrow>
      applyForce E b v (Some r) =
        b\<lparr>m_body := (m_body b)\<lparr>bt_calls := bt_calls (m_body b) @ [Activate, ApplyForce v r]\<rparr>\<rparr> \<and>
      applyForce E b v None =
        b\<lparr>m_body := (m_body b)\<lparr>bt_calls := bt_calls (m_body b) @ [Activate, ApplyCentralForce v]\<rparr>\<rparr> \<and>
      applyImpulse E b v (Some r) =
        b\<lparr>m_body := (m_body b)\<lparr>bt_calls := bt_calls (m_body b) @ [Activate, ApplyImpulse v r]\<rparr>\<rparr> \<and>
      applyImpulse E b v None =
        b\<lparr>m_body := (m_body b)\<lparr>bt_calls := bt_calls (m_body b) @ [Activate, ApplyCentralImpulse v]\<rparr>\<rparr> \<and>
      applyTorque E b v =
        b\<lparr>m_body := (m_body b)\<lparr>bt_calls := bt_calls (m_body b) @ [Activate, ApplyTorque v]\<rparr>\<rparr> \<and>
      applyTorqueImpulse E b v =
        b\<lparr>m_body := (m_body b)\<lparr>bt_calls := bt_calls (m_body b) @ [Activate, ApplyTorqueImpulse v]\<rparr>\<rparr>)"
  by (simp add: applyForce_def applyImpulse_def applyTorque_def applyTorqueImpulse_def call_def)

theorem apply_below_and_above_epsilon_witness:
  "lengthSquared (Vector3 (1 / 10000) 0 0) \<le> MATH_EPSILON identity_Env \<and>
   applyForce identity_Env box_body (Vector3 (1 / 10000) 0 0) (Some (Vector3 0 1 0)) = box_body \<and>
   lengthSquared (Vector3 1 0 0) > MATH_EPSILON identity_Env \<and>
   bt_calls (m_body (applyForce identity_Env box_body (Vector3 1 0 0) (Some (Vector3 0 1 0)))) =
     [Activate, ApplyForce (Vector3 1 0 0) (Vector3 0 1 0)] \<and>
   bt_calls (m_body (applyTorque identity_Env box_body (Vector3 1 0 0))) =
     [Activate, ApplyTorque (Vector3 1 0 0)]"
  using apply_below_and_above_epsilon [of "Vector3 (1 / 10000) 0 0" identity_Env box_body
      "Some (Vector3 0 1 0)" "Vector3 0 1 0"]
    apply_below_and_above_epsilon [of "Vector3 1 0 0" identity_Env box_body
      "Some (Vector3 0 1 0)" "Vector3 0 1 0"]
  by (simp add: lengthSquared_def identity_Env_def box_body_def static_body_def)

section \<open>Samples at integer coordinates\<close>

lemma index_in_grid:
  fixes a b w h :: uint
  assumes "a < w" "b < h"
  shows "unat (a + b * w) < unat w * unat h"
proof -
  have "unat (a + b * w) \<le> unat a + unat (b * w)"
    unfolding unat_word_ariths(1) by (rule mod_less_eq_dividend)
  also have "unat (b * w) \<le> unat b * unat w"
    unfolding unat_word_ariths(2) by (rule mod_less_eq_dividend)
  also have "unat a + unat b * unat w < unat w + unat b * unat w"
    using assms(1) by (simp add: word_less_nat_alt)
  also have "\<dots> = unat w * Suc (unat b)" by simp
  also have "\<dots> \<le> unat w * unat h"
  proof -
    have "Suc (unat b) \<le> unat h" using assms(2) by (simp add: word_less_nat_alt)
    then show ?thesis by (rule mult_le_mono2)
  qed
  finally show ?thesis by simp
qed

lemma sample_in_grid:
  fixes a b w h :: uint
  assumes "a < w" "b < h" "length data = unat w * unat h"
  shows "sample data (a + b * w) = Inr (data ! unat (a + b * w))"
  using index_in_grid [OF assms(1,2)] assms(3) by (simp add: sample_def)

text \<open>
  C8. On a grid of width \<open>w\<close> and height \<open>h\<close>, at integer coordinates \<open>(x, y)\<close> with
  \<open>0 \<le> x < w\<close> and \<open>0 \<le> y < h\<close>, \<open>calculateHeight\<close> returns \<open>grid[x + y*w]\<close> exactly,
  in every branch.
\<close>

theorem calculateHeight_integer_coordinates:
  fixes x y w h :: uint
  assumes "x < w" "y < h" "length data = unat w * unat h"
  shows "calculateHeight data w h (real (unat x)) (real (unat y)) =
           Inr (data ! unat (x + y * w))"
proof -
  have s11: "sample data (x + y * w) = Inr (data ! unat (x + y * w))"
    using assms by (rule sample_in_grid)
  have s12: "\<not> h \<le> y + 1 \<Longrightarrow> \<exists>v. sample data (x + (y + 1) * w) = Inr v"
    using sample_in_grid [of x w "y + 1" h data] assms by simp
  have s21: "\<not> w \<le> x + 1 \<Longrightarrow> \<exists>v. sample data (x + 1 + y * w) = Inr v"
    using sample_in_grid [of "x + 1" w y h data] assms by simp
  have s22: "\<not> w \<le> x + 1 \<Longrightarrow> \<not> h \<le> y + 1 \<Longrightarrow>
               \<exists>v. sample data (x + 1 + (y + 1) * w) = Inr v"
    using sample_in_grid [of "x + 1" w "y + 1" h data] assms by simp
  show ?thesis
    unfolding calculateHeight_def float_to_uint_unat modf_of_nat
    using s11 s12 s21 s22
    by (auto simp add: bind_fault_def Let_def)
qed

theorem calculateHeight_integer_coordinates_witness:
  "(0::uint) < 2 \<and> (1::uint) < 2 \<and>
   length [0, 0, 10, 10 :: real] = unat (2::uint) * unat (2::uint) \<and>
   calculateHeight [0, 0, 10, 10] 2 2 0 1 = Inr 10"
  using calculateHeight_integer_coordinates [of 0 2 1 2 "[0, 0, 10, 10]"]
  by (simp add: word_less_nat_alt)

section \<open>Reads of the heightfield buffer\<close>

text \<open>
  C9. A query that passes the validation of \<open>getHeight\<close> should read inside the
  buffer only. The validation admits the coordinates \<open>x = width\<close> and \<open>y = height\<close>:
  on the 2 by 2 heightfield that is built on the unit node, the query at (1/2, 1/2)
  has the grid coordinates (2, 2), passes, and reads \<open>data[2 + 2 * 2]\<close> in a buffer
  of 4 cells.
\<close>

theorem getHeight_reads_out_of_bounds:
  "new_PhysicsRigidBody_heightfield identity_Env unit_node grey_pixel 0 (1 / 2) 0 0 0 =
     Inr terrain_2x2 \<and>
   gridCoordinate (1 / 2) (m_width terrain_2x2) = Finite 2 \<and>
   gridCoordinate (1 / 2) (m_height terrain_2x2) = Finite 2 \<and>
   map_option length (m_heightfieldData terrain_2x2) = Some 4 \<and>
   getHeight identity_Env terrain_2x2 (1 / 2) (1 / 2) = Inl OutOfBoundsRead"
  by (simp add: terrain_2x2_built)
     (simp add: terrain_2x2_def identity_Env_def updateInverse_def gridCoordinate_def
        getHeight_def eval_simps)

section \<open>Constraints\<close>

text \<open>
  C10. \<open>supportsConstraints\<close> returns true if and only if the collision shape of the
  body is neither a triangle mesh nor a heightfield; that is, for a box, a sphere
  and a capsule, and not for a mesh and a heightfield.
\<close>

theorem supportsConstraints_iff:
  assumes "m_shape b = Some s"
  shows "supportsConstraints b =
           Inr (getShapeType s \<noteq> TRIANGLE_MESH_SHAPE_PROXYTYPE \<and>
                getShapeType s \<noteq> TERRAIN_SHAPE_PROXYTYPE) \<and>
         supportsConstraints b =
           Inr (getShapeType s = BOX_SHAPE_PROXYTYPE \<or>
                getShapeType s = SPHERE_SHAPE_PROXYTYPE \<or>
                getShapeType s = CAPSULE_SHAPE_PROXYTYPE)"
  using assms by (cases "getShapeType s") (simp_all add: supportsConstraints_def)

theorem supportsConstraints_iff_witness:
  "m_shape box_body = Some (Box (Vector3 0 0 0) (Vector3 1 2 1) (Vector3 1 1 1)) \<and>
   supportsConstraints box_body = Inr True \<and>
   m_shape terrain_2x2 = Some (Heightfield 2 2 [1, 1, 1, 1] 0 2) \<and>
   supportsConstraints terrain_2x2 = Inr False"
  using supportsConstraints_iff [of box_body "Box (Vector3 0 0 0) (Vector3 1 2 1) (Vector3 1 1 1)"]
    supportsConstraints_iff [of terrain_2x2 "Heightfield 2 2 [1, 1, 1, 1] 0 2"]
  by (simp add: box_body_def terrain_2x2_def)

end
